theory Spec2Isabelle
  imports Main "HOL-Library.Sublist"
begin

section \<open>Python values, faults and decimal rendering\<close>

text \<open>
  The handler is dynamically typed: \<open>symbol.id\<close> is \<open>None\<close>, a name index or the text of
  a number, and \<open>if symbol.id:\<close> tests Python truthiness, not \<open>is not None\<close>.
\<close>

datatype pyval = PyNone | PyInt int | PyStr string

fun truthy :: "pyval \<Rightarrow> bool" where
  "truthy PyNone = False"
| "truthy (PyInt n) = (n \<noteq> 0)"
| "truthy (PyStr s) = (s \<noteq> [])"

text \<open>
  Every \<open>raise\<close> of the source and every exception of the Python operations it uses:
  \<^item> \<open>InvalidSymbolType\<close>: \<open>ValueError("Invalid symbol type")\<close> (the spec's InvalidSymbolClassification);
  \<^item> \<open>MissingName c\<close>: \<open>TypeError("error_code = c has 1 required positional argument: 'name'")\<close>
    (the spec's MissingLabelArgument);
  \<^item> \<open>InvalidErrorCode c\<close>: \<open>ValueError("Invalid error code 'c'")\<close> (the spec's UnknownErrorCode);
  \<^item> \<open>ConcatTypeError\<close>: the \<open>TypeError\<close> of \<open>"\"" + name\<close> when \<open>name\<close> is not a string;
  \<^item> \<open>IndexError\<close>: \<open>file_lines[line]\<close> out of range;
  \<^item> \<open>NamesError\<close>: whatever \<open>names.get_name_string\<close> raises.
\<close>

datatype error =
    InvalidSymbolType
  | MissingName int
  | InvalidErrorCode int
  | ConcatTypeError
  | IndexError
  | NamesError

text \<open>
  \<open>xs[i]\<close> on a Python list: \<open>i\<close> from 0 up to the length reads forwards, \<open>i\<close> from
  minus the length up to -1 reads backwards from the last element, anything else raises
  \<open>IndexError\<close>.
\<close>

definition py_index :: "'a list \<Rightarrow> int \<Rightarrow> error + 'a" where
  "py_index xs i =
     (if 0 \<le> i \<and> i < int (length xs) then Inr (xs ! nat i)
      else if i < 0 \<and> - int (length xs) \<le> i then Inr (xs ! nat (int (length xs) + i))
      else Inl IndexError)"

text \<open>\<open>str(n)\<close> of a Python int, as the f-string \<open>f"Line {line + 1}:"\<close> renders it.\<close>

fun digits :: "nat \<Rightarrow> string" where
  "digits n = (if n < 10 then [''0123456789'' ! n]
               else digits (n div 10) @ [''0123456789'' ! (n mod 10)])"

declare digits.simps [simp del]

definition str_int :: "int \<Rightarrow> string" where
  "str_int i = (if i < 0 then ''-'' @ digits (nat (- i)) else digits (nat i))"

section \<open>The collaborators of the handler\<close>

text \<open>
  Modelled from the spec: the lexer's classification constants \<open>Scanner.NUMBER\<close>,
  \<open>Scanner.COMMA\<close>, ... (class \<open>Scanner\<close> is not among the sources). The spec gives the
  classification as an enumeration \<open>{Keyword, Name, Number, Comma, Semicolon, Colon,
  FullStop, Arrow, OpenCurly, CloseCurly, Eof, ...}\<close>; \<open>OTHER k\<close> stands for the trailing
  dots, a classification outside the recognized set.
\<close>

datatype symbol_type =
    KEYWORD | NAME | NUMBER
  | COMMA | SEMICOLON | COLON | FULL_STOP | ARROW
  | OPEN_CURLY_BRACKET | CLOSE_CURLY_BRACKET | EOF
  | OTHER nat


record Symbol =
  sym_type :: symbol_type
  sym_id :: pyval
  line :: int
  character_in_line :: int

text \<open>
  Modelled from the spec: \<open>names.get_name_string\<close> (class \<open>Names\<close> is not among the
  sources) is a read-only name lookup; it is taken as a parameter that returns any value
  or raises.
\<close>

record Names =
  get_name_string :: "pyval \<Rightarrow> error + pyval"

record Devices =
  DEVICE_PRESENT :: int

record Network =
  PORT_ABSENT :: int
  INPUT_CONNECTED :: int
  DEVICE_ABSENT :: int

record Monitors =
  MONITOR_PRESENT :: int

record Scanner =
  file_lines :: "string list"

section \<open>The two diagnostic shapes and their rendering\<close>

datatype terminal_output =
    LineTerminalOutput (line_location: string) (line_with_issue: string)
                       (arrow: string) (message: string)
  | FileTerminalOutput (message: string)

text \<open>\<open>__str__\<close> of both classes.\<close>

fun str_of :: "terminal_output \<Rightarrow> string" where
  "str_of (LineTerminalOutput loc src arr msg) =
     ''\<newline>'' @ loc @ ''\<newline>'' @ src @ arr @ ''\<newline>'' @ msg @ ''\<newline>''"
| "str_of (FileTerminalOutput msg) =
     ''\<newline>File error: '' @ msg @ ''\<newline>''"

section \<open>ParserErrorHandler\<close>

text \<open>
  The object after \<open>__init__\<close>: the five references, the diagnostics list, the 17 syntax
  codes and the 4 semantic codes handed out by \<open>names.unique_error_codes\<close>.
\<close>

record ParserErrorHandler =
  names :: Names
  devices :: Devices
  network :: Network
  monitors :: Monitors
  scanner :: Scanner
  error_output_list :: "terminal_output list"
  EXPECT_IDENTIFIER :: int
  EXPECT_INPUT_DEVICE :: int
  EXPECT_VARIABLE_INPUT_NUMBER :: int
  EXPECT_CLOCK_CYCLE :: int
  EXPECT_INITIAL_STATE :: int
  EXPECT_PIN_IN :: int
  EXPECT_PIN_OUT :: int
  EXPECT_PIN_IN_OR_OUT :: int
  EXPECT_KEYWORD :: int
  EXPECT_OPEN_CURLY_BRACKET :: int
  EXPECT_COMMA :: int
  EXPECT_SEMICOLON :: int
  EXPECT_COLON :: int
  EXPECT_FULL_STOP_OR_SEMICOLON :: int
  EXPECT_FULL_STOP :: int
  EXPECT_ARROW :: int
  EXPECT_FULL_STOP_OR_ARROW :: int
  MISSING_CLOCK_OR_SWITCH :: int
  DUPLICATE_KEYWORD :: int
  WRONG_BLOCK_ORDER :: int
  MONITOR_NOT_DEFINED :: int

text \<open>
  \<open>get_error_message\<close>: the label is quoted first, then tested for emptiness, then the
  \<open>if\<close>/\<open>elif\<close> chain picks the first code that matches.
\<close>

definition get_error_message :: "ParserErrorHandler \<Rightarrow> int \<Rightarrow> pyval \<Rightarrow> error + string" where
  "get_error_message self error_code name0 =
     (case name0 of
        PyStr s \<Rightarrow>
          (let name = [CHR 0x22] @ s @ [CHR 0x22] in
           if error_code \<noteq> MISSING_CLOCK_OR_SWITCH self \<and> name = [] then
             Inl (MissingName error_code)
           else if error_code = EXPECT_IDENTIFIER self then
             Inr (''Found '' @ name @ '', expected a non-keyword identifier'')
           else if error_code = EXPECT_INPUT_DEVICE self then
             Inr (''Found '' @ name @ '', expected 'AND', 'NAND', 'OR', 'NOR', 'XOR' or 'DTYPE'' @ [CHR 0x27])
           else if error_code = EXPECT_VARIABLE_INPUT_NUMBER self then
             Inr (''Found '' @ name @ '', expected integer between 1 and 16'')
           else if error_code = EXPECT_CLOCK_CYCLE self then
             Inr (''Found '' @ name @ '', expected positive integer with no leading zero'')
           else if error_code = EXPECT_INITIAL_STATE self then
             Inr (''Found '' @ name @ '', expected 0 or 1'')
           else if error_code = EXPECT_PIN_IN self then
             Inr (''Found '' @ name @ '', expected 'I1-16', 'DATA', 'CLK', 'SET' or 'CLEAR'' @ [CHR 0x27])
           else if error_code = EXPECT_PIN_OUT self then
             Inr (''Found '' @ name @ '', expected 'Q' or 'QBAR'' @ [CHR 0x27])
           else if error_code = EXPECT_PIN_IN_OR_OUT self then
             Inr (''Found '' @ name @ '', expected 'I1-16', 'DATA', 'CLK', 'SET', 'CLEAR', 'Q' or 'QBAR'' @ [CHR 0x27])
           else if error_code = EXPECT_KEYWORD self then
             Inr (''Found '' @ name @ '', expected a keyword ('DEVICE', 'CLOCK', 'SWITCH', 'MONITOR' or 'CONNECTION')'')
           else if error_code = EXPECT_OPEN_CURLY_BRACKET self then
             Inr (''Found '' @ name @ '', expected '{'' @ [CHR 0x27])
           else if error_code = EXPECT_COMMA self then
             Inr (''Found '' @ name @ '', expected ','' @ [CHR 0x27])
           else if error_code = EXPECT_SEMICOLON self then
             Inr (''Found '' @ name @ '', expected ';'' @ [CHR 0x27])
           else if error_code = EXPECT_COLON self then
             Inr (''Found '' @ name @ '', expected ':'' @ [CHR 0x27])
           else if error_code = EXPECT_FULL_STOP_OR_SEMICOLON self then
             Inr (''Found '' @ name @ '', expected '.' (if pin has to be defined) or ';' (if pin does not have to be defined)'')
           else if error_code = EXPECT_FULL_STOP self then
             Inr (''Found '' @ name @ '', expected '.'' @ [CHR 0x27])
           else if error_code = EXPECT_ARROW self then
             Inr (''Found '' @ name @ '', expected '>'' @ [CHR 0x27])
           else if error_code = EXPECT_FULL_STOP_OR_ARROW self then
             Inr (''Found '' @ name @ '', expected '.' (if pin has to be defined) or ';' (if pin does not have to be defined)'')
           else if error_code = PORT_ABSENT (network self) then
             Inr (''Pin '' @ name @ '' does not exist'')
           else if error_code = INPUT_CONNECTED (network self) then
             Inr (''Connection repeatedly assigned to input pin '' @ name)
           else if False then
             Inr (''Missing input to pin '' @ name)
           else if error_code = DEVICE_ABSENT (network self) then
             Inr (''Identifier '' @ name @ '' is not defined'')
           else if error_code = DEVICE_PRESENT (devices self)
                 \<or> error_code = MONITOR_PRESENT (monitors self) then
             Inr (''Identifier '' @ name @ '' should not be redefined'')
           else if error_code = MISSING_CLOCK_OR_SWITCH self then
             Inr (''At least one list between 'CLOCK' and 'SWITCH' is needed. neither is found'')
           else if error_code = DUPLICATE_KEYWORD self then
             Inr (name @ '' block should not be redefined'')
           else if error_code = WRONG_BLOCK_ORDER self then
             Inr (name @ '' block order is wrong'')
           else if error_code = MONITOR_NOT_DEFINED self then
             Inr (''At least one monitor should be defined'')
           else Inl (InvalidErrorCode error_code))
      | _ \<Rightarrow> Inl ConcatTypeError)"

text \<open>\<open>get_line_terminal_output\<close>: the only step that can raise is \<open>file_lines[line]\<close>.\<close>

definition get_line_terminal_output ::
  "ParserErrorHandler \<Rightarrow> int \<Rightarrow> int \<Rightarrow> string \<Rightarrow> error + terminal_output" where
  "get_line_terminal_output self ln col msg =
     (case py_index (file_lines (scanner self)) ln of
        Inl e \<Rightarrow> Inl e
      | Inr src \<Rightarrow>
          Inr (LineTerminalOutput (''Line '' @ str_int (ln + 1) @ '':'') src
                 (replicate (nat col) (CHR '' '') @ ''^'') msg))"

text \<open>
  The label resolution of \<open>handle_error\<close> (its \<open>if symbol.id: ... else: raise\<close> chain,
  lines 49 to 71): the value is tested first, by truthiness, and the classification only
  when the value is falsy.
\<close>

definition symbol_name :: "ParserErrorHandler \<Rightarrow> Symbol \<Rightarrow> error + pyval" where
  "symbol_name self symbol =
     (if truthy (sym_id symbol) then
        (if sym_type symbol = NUMBER then Inr (sym_id symbol)
         else get_name_string (names self) (sym_id symbol))
      else if sym_type symbol = COMMA then Inr (PyStr '','')
      else if sym_type symbol = SEMICOLON then Inr (PyStr '';'')
      else if sym_type symbol = COLON then Inr (PyStr '':'')
      else if sym_type symbol = FULL_STOP then Inr (PyStr ''.'')
      else if sym_type symbol = ARROW then Inr (PyStr ''>'')
      else if sym_type symbol = OPEN_CURLY_BRACKET then Inr (PyStr ''{'')
      else if sym_type symbol = CLOSE_CURLY_BRACKET then Inr (PyStr ''}'')
      else if sym_type symbol = EOF then Inr (PyStr [])
      else Inl InvalidSymbolType)"

text \<open>
  \<open>handle_error\<close> and \<open>file_error\<close> return the outcome (\<open>Inl\<close> the exception raised,
  \<open>Inr ()\<close> a normal return of \<open>None\<close>), the object as the call leaves it, and the lines the
  call printed on standard output. \<open>handle_error\<close> starts with \<open>print("handling error")\<close>.
\<close>

definition handle_error ::
  "ParserErrorHandler \<Rightarrow> int \<Rightarrow> Symbol \<Rightarrow> (error + unit) \<times> ParserErrorHandler \<times> string list" where
  "handle_error self error_code symbol =
     (let printed = [''handling error''] in
      case symbol_name self symbol of
        Inl e \<Rightarrow> (Inl e, self, printed)
      | Inr name \<Rightarrow>
          (case get_error_message self error_code name of
             Inl e \<Rightarrow> (Inl e, self, printed)
           | Inr error_message \<Rightarrow>
               (case get_line_terminal_output self (line symbol) (character_in_line symbol)
                       error_message of
                  Inl e \<Rightarrow> (Inl e, self, printed)
                | Inr error_output \<Rightarrow>
                    (Inr (),
                     self\<lparr>error_output_list := error_output_list self @ [error_output]\<rparr>,
                     printed))))"

definition file_error ::
  "ParserErrorHandler \<Rightarrow> int \<Rightarrow> (error + unit) \<times> ParserErrorHandler \<times> string list" where
  "file_error self error_code =
     (case get_error_message self error_code (PyStr []) of
        Inl e \<Rightarrow> (Inl e, self, [])
      | Inr m \<Rightarrow>
          (Inr (),
           self\<lparr>error_output_list := error_output_list self @ [FileTerminalOutput m]\<rparr>,
           []))"

text \<open>
  The declared identifier set: the 17 syntax codes, the 4 semantic codes of the handler
  and the 5 codes owned by the network, devices and monitors collaborators.
\<close>

definition declared_codes :: "ParserErrorHandler \<Rightarrow> int list" where
  "declared_codes self =
     [EXPECT_IDENTIFIER self, EXPECT_INPUT_DEVICE self, EXPECT_VARIABLE_INPUT_NUMBER self,
      EXPECT_CLOCK_CYCLE self, EXPECT_INITIAL_STATE self, EXPECT_PIN_IN self,
      EXPECT_PIN_OUT self, EXPECT_PIN_IN_OR_OUT self, EXPECT_KEYWORD self,
      EXPECT_OPEN_CURLY_BRACKET self, EXPECT_COMMA self, EXPECT_SEMICOLON self,
      EXPECT_COLON self, EXPECT_FULL_STOP_OR_SEMICOLON self, EXPECT_FULL_STOP self,
      EXPECT_ARROW self, EXPECT_FULL_STOP_OR_ARROW self,
      PORT_ABSENT (network self), INPUT_CONNECTED (network self),
      DEVICE_ABSENT (network self), DEVICE_PRESENT (devices self),
      MONITOR_PRESENT (monitors self),
      MISSING_CLOCK_OR_SWITCH self, DUPLICATE_KEYWORD self, WRONG_BLOCK_ORDER self,
      MONITOR_NOT_DEFINED self]"

section \<open>Reading a rendering line by line\<close>

text \<open>
  The lines of a text, as Python's \<open>text.split("\n")\<close> gives them; used to say what
  stands on the caret's line of a rendering.
\<close>

fun split_lines :: "string \<Rightarrow> string list" where
  "split_lines [] = [[]]"
| "split_lines (c # cs) =
     (if c = CHR 0x0A then [] # split_lines cs
      else (case split_lines cs of
              [] \<Rightarrow> [[c]]
            | l # ls \<Rightarrow> (c # l) # ls))"

text \<open>
  The rendering of a positional diagnostic as the specification words it: a blank line,
  the location, the source line on its own line, the caret line on its own line, the
  message, a blank line. Kept apart from \<open>str_of\<close>, which is the code.
\<close>

definition spec_line_rendering :: "int \<Rightarrow> string \<Rightarrow> int \<Rightarrow> string \<Rightarrow> string" where
  "spec_line_rendering ln src col msg =
     ''\<newline>'' @ ''Line '' @ str_int (ln + 1) @ '':'' @ ''\<newline>'' @ src @ ''\<newline>''
       @ replicate (nat col) (CHR '' '') @ ''^'' @ ''\<newline>'' @ msg @ ''\<newline>''"

section \<open>A concrete session\<close>

text \<open>
  A handler as the constructors leave it: the network, devices and monitors take the
  codes 0 to 4, the handler the codes 5 to 25; two names are known; five source lines
  are cached, the fifth being \<open>A -> B;\<close>.
\<close>

definition example_names :: Names where
  "example_names =
     \<lparr>get_name_string = (\<lambda>v. case v of
          PyInt i \<Rightarrow> (if i = 0 then Inr (PyStr ''DEVICE'')
                      else if i = 1 then Inr (PyStr ''A'')
                      else Inr PyNone)
        | _ \<Rightarrow> Inl NamesError)\<rparr>"

definition example_handler :: ParserErrorHandler where
  "example_handler =
     \<lparr>names = example_names,
      devices = \<lparr>DEVICE_PRESENT = 3\<rparr>,
      network = \<lparr>PORT_ABSENT = 0, INPUT_CONNECTED = 1, DEVICE_ABSENT = 2\<rparr>,
      monitors = \<lparr>MONITOR_PRESENT = 4\<rparr>,
      scanner = \<lparr>file_lines = [''DEVICE {'', ''  A: AND 2;'', ''}'', ''CONNECTION {'', ''A -> B;'']\<rparr>,
      error_output_list = [],
      EXPECT_IDENTIFIER = 5, EXPECT_INPUT_DEVICE = 6, EXPECT_VARIABLE_INPUT_NUMBER = 7,
      EXPECT_CLOCK_CYCLE = 8, EXPECT_INITIAL_STATE = 9, EXPECT_PIN_IN = 10,
      EXPECT_PIN_OUT = 11, EXPECT_PIN_IN_OR_OUT = 12, EXPECT_KEYWORD = 13,
      EXPECT_OPEN_CURLY_BRACKET = 14, EXPECT_COMMA = 15, EXPECT_SEMICOLON = 16,
      EXPECT_COLON = 17, EXPECT_FULL_STOP_OR_SEMICOLON = 18, EXPECT_FULL_STOP = 19,
      EXPECT_ARROW = 20, EXPECT_FULL_STOP_OR_ARROW = 21,
      MISSING_CLOCK_OR_SWITCH = 22, DUPLICATE_KEYWORD = 23, WRONG_BLOCK_ORDER = 24,
      MONITOR_NOT_DEFINED = 25\<rparr>"

section \<open>Facts about the embedding\<close>

subsection \<open>Decimal rendering and list helpers at the inputs used below\<close>

lemma digits_1: "digits (Suc 0) = ''1''"
  by (subst digits.simps) simp

lemma digits_5: "digits 5 = ''5''"
  by (subst digits.simps) simp

lemma str_int_1: "str_int 1 = ''1''"
  by (simp add: str_int_def digits_1)

lemma str_int_5: "str_int 5 = ''5''"
  by (simp add: str_int_def digits_5)

lemma digits_2: "digits 2 = ''2''"
  by (subst digits.simps) simp

lemma str_int_2: "str_int 2 = ''2''"
  by (simp add: str_int_def digits_2)

lemma replicate_2_spaces: "replicate 2 (CHR '' '') = ''  ''"
  by (simp add: numeral_eq_Suc)

lemma replicate_7_spaces: "replicate 7 (CHR '' '') = ''       ''"
  by (simp add: numeral_eq_Suc)

lemma distinct_mid: "distinct xs \<Longrightarrow> xs = ys @ x # zs \<Longrightarrow> x \<notin> set ys"
  by simp

subsection \<open>The message catalog\<close>

lemma get_error_message_Inl:
  "get_error_message self error_code (PyStr label) = Inl e \<Longrightarrow>
     e = InvalidErrorCode error_code \<and> error_code \<notin> set (declared_codes self)"
  unfolding get_error_message_def declared_codes_def Let_def
  by (simp split: if_splits)

lemma get_error_message_Inr:
  "get_error_message self error_code (PyStr label) = Inr m \<Longrightarrow>
     m \<noteq> [] \<and> error_code \<in> set (declared_codes self)"
  unfolding get_error_message_def declared_codes_def Let_def
  by (auto split: if_splits)

lemma get_error_message_not_str:
  "\<forall>s. name \<noteq> PyStr s \<Longrightarrow> get_error_message self error_code name = Inl ConcatTypeError"
  by (cases name) (simp_all add: get_error_message_def)

lemma fresh_MONITOR_NOT_DEFINED:
  assumes "distinct (declared_codes self)"
  shows "MONITOR_NOT_DEFINED self \<notin> set (take 25 (declared_codes self))"
proof -
  have "declared_codes self =
          take 25 (declared_codes self) @ MONITOR_NOT_DEFINED self # []"
    by (simp add: declared_codes_def)
  with assms show ?thesis by (rule distinct_mid)
qed

lemma fresh_MISSING_CLOCK_OR_SWITCH:
  assumes "distinct (declared_codes self)"
  shows "MISSING_CLOCK_OR_SWITCH self \<notin> set (take 22 (declared_codes self))"
proof -
  have "declared_codes self =
          take 22 (declared_codes self)
            @ MISSING_CLOCK_OR_SWITCH self # drop 23 (declared_codes self)"
    by (simp add: declared_codes_def)
  with assms show ?thesis by (rule distinct_mid)
qed

lemma fresh_EXPECT_FULL_STOP_OR_SEMICOLON:
  assumes "distinct (declared_codes self)"
  shows "EXPECT_FULL_STOP_OR_SEMICOLON self \<notin> set (take 13 (declared_codes self))"
proof -
  have "declared_codes self =
          take 13 (declared_codes self)
            @ EXPECT_FULL_STOP_OR_SEMICOLON self # drop 14 (declared_codes self)"
    by (simp add: declared_codes_def)
  with assms show ?thesis by (rule distinct_mid)
qed

lemma fresh_EXPECT_FULL_STOP_OR_ARROW:
  assumes "distinct (declared_codes self)"
  shows "EXPECT_FULL_STOP_OR_ARROW self \<notin> set (take 16 (declared_codes self))"
proof -
  have "declared_codes self =
          take 16 (declared_codes self)
            @ EXPECT_FULL_STOP_OR_ARROW self # drop 17 (declared_codes self)"
    by (simp add: declared_codes_def)
  with assms show ?thesis by (rule distinct_mid)
qed

lemma message_MONITOR_NOT_DEFINED:
  assumes "distinct (declared_codes self)"
  shows "get_error_message self (MONITOR_NOT_DEFINED self) (PyStr label) =
           Inr ''At least one monitor should be defined''"
  using fresh_MONITOR_NOT_DEFINED [OF assms]
  by (simp add: get_error_message_def declared_codes_def)

lemma message_MISSING_CLOCK_OR_SWITCH:
  assumes "distinct (declared_codes self)"
  shows "get_error_message self (MISSING_CLOCK_OR_SWITCH self) (PyStr label) =
           Inr ''At least one list between 'CLOCK' and 'SWITCH' is needed. neither is found''"
  using fresh_MISSING_CLOCK_OR_SWITCH [OF assms]
  by (simp add: get_error_message_def declared_codes_def)

lemma message_EXPECT_FULL_STOP_OR_SEMICOLON:
  assumes "distinct (declared_codes self)"
  shows "get_error_message self (EXPECT_FULL_STOP_OR_SEMICOLON self) (PyStr label) =
     Inr (''Found '' @ [CHR 0x22] @ label @ [CHR 0x22] @ '', expected '.' (if pin has to be defined) or ';' (if pin does not have to be defined)'')"
  using fresh_EXPECT_FULL_STOP_OR_SEMICOLON [OF assms]
  by (simp add: get_error_message_def declared_codes_def)

lemma message_EXPECT_FULL_STOP_OR_ARROW:
  assumes "distinct (declared_codes self)"
  shows "get_error_message self (EXPECT_FULL_STOP_OR_ARROW self) (PyStr label) =
     Inr (''Found '' @ [CHR 0x22] @ label @ [CHR 0x22] @ '', expected '.' (if pin has to be defined) or ';' (if pin does not have to be defined)'')"
  using fresh_EXPECT_FULL_STOP_OR_ARROW [OF assms]
  by (simp add: get_error_message_def declared_codes_def)

subsection \<open>The two reporting operations, by outcome\<close>

lemma get_line_terminal_output_in_range:
  assumes "0 \<le> ln" and "ln < int (length (file_lines (scanner self)))"
  shows "get_line_terminal_output self ln col msg =
           Inr (LineTerminalOutput (''Line '' @ str_int (ln + 1) @ '':'')
                  (file_lines (scanner self) ! nat ln)
                  (replicate (nat col) (CHR '' '') @ ''^'') msg)"
  using assms by (simp add: get_line_terminal_output_def py_index_def)

lemma get_line_terminal_output_Inr:
  "get_line_terminal_output self ln col msg = Inr d \<Longrightarrow>
     \<exists>loc src arr. d = LineTerminalOutput loc src arr msg"
  by (auto simp: get_line_terminal_output_def split: sum.splits)

lemma handle_error_success:
  assumes "symbol_name self symbol = Inr name"
    and "get_error_message self error_code name = Inr msg"
    and "0 \<le> line symbol"
    and "line symbol < int (length (file_lines (scanner self)))"
  shows "handle_error self error_code symbol =
           (Inr (),
            self\<lparr>error_output_list := error_output_list self @
               [LineTerminalOutput (''Line '' @ str_int (line symbol + 1) @ '':'')
                  (file_lines (scanner self) ! nat (line symbol))
                  (replicate (nat (character_in_line symbol)) (CHR '' '') @ ''^'') msg]\<rparr>,
            [''handling error''])"
  using assms
  by (simp add: handle_error_def Let_def get_line_terminal_output_in_range)

lemma handle_error_Inr:
  assumes "handle_error self error_code symbol = (Inr u, self', printed)"
  shows "\<exists>name msg loc src arr.
           symbol_name self symbol = Inr name
         \<and> get_error_message self error_code name = Inr msg
         \<and> self' = self\<lparr>error_output_list :=
                      error_output_list self @ [LineTerminalOutput loc src arr msg]\<rparr>
         \<and> printed = [''handling error'']"
proof -
  from assms obtain name msg d where
    n: "symbol_name self symbol = Inr name" and
    m: "get_error_message self error_code name = Inr msg" and
    d: "get_line_terminal_output self (line symbol) (character_in_line symbol) msg = Inr d" and
    s: "self' = self\<lparr>error_output_list := error_output_list self @ [d]\<rparr>" and
    p: "printed = [''handling error'']"
    by (auto simp: handle_error_def Let_def split: sum.splits)
  from d obtain loc src arr where "d = LineTerminalOutput loc src arr msg"
    using get_line_terminal_output_Inr by blast
  with n m s p show ?thesis by blast
qed

lemma handle_error_Inl:
  "handle_error self error_code symbol = (Inl e, self', printed) \<Longrightarrow>
     self' = self \<and> printed = [''handling error'']"
  by (auto simp: handle_error_def Let_def split: sum.splits)

lemma file_error_Inr:
  "file_error self error_code = (Inr u, self', printed) \<Longrightarrow>
     \<exists>m. get_error_message self error_code (PyStr []) = Inr m
        \<and> self' = self\<lparr>error_output_list := error_output_list self @ [FileTerminalOutput m]\<rparr>
        \<and> printed = []"
  by (auto simp: file_error_def split: sum.splits)

lemma file_error_Inl:
  "file_error self error_code = (Inl e, self', printed) \<Longrightarrow> self' = self \<and> printed = []"
  by (auto simp: file_error_def split: sum.splits)

lemma example_codes_distinct: "distinct (declared_codes example_handler)"
  by (simp add: declared_codes_def example_handler_def)

subsection \<open>Lines of a text\<close>

lemma split_lines_no_newline: "CHR 0x0A \<notin> set a \<Longrightarrow> split_lines a = [a]"
  by (induction a) auto

lemma split_lines_append_newline:
  "CHR 0x0A \<notin> set a \<Longrightarrow> split_lines (a @ CHR 0x0A # rest) = a # split_lines rest"
  by (induction a) auto

lemma digit_no_newline: "n < 10 \<Longrightarrow> ''0123456789'' ! n \<noteq> CHR 0x0A"
proof -
  assume "n < 10"
  then have "''0123456789'' ! n \<in> set ''0123456789''"
    by (intro nth_mem) simp
  then show ?thesis by auto
qed

lemma digits_no_newline: "CHR 0x0A \<notin> set (digits n)"
proof (induction n rule: digits.induct)
  case (1 n)
  show ?case
  proof (cases "n < 10")
    case True
    then show ?thesis
      using digit_no_newline [of n] by (subst digits.simps) auto
  next
    case False
    then show ?thesis
      using 1 digit_no_newline [of "n mod 10"] by (subst digits.simps) auto
  qed
qed

lemma line_location_no_newline: "CHR 0x0A \<notin> set (''Line '' @ str_int k @ '':'')"
  by (simp add: str_int_def digits_no_newline)

lemma arrow_no_newline: "CHR 0x0A \<notin> set (replicate k (CHR '' '') @ ''^'')"
  by auto

lemma split_lines_rendering:
  assumes "CHR 0x0A \<notin> set loc" and "CHR 0x0A \<notin> set third" and "CHR 0x0A \<notin> set msg"
  shows "split_lines (''\<newline>'' @ loc @ ''\<newline>'' @ third @ ''\<newline>'' @ msg @ ''\<newline>'') =
           ['''', loc, third, msg, '''']"
  using assms by (simp add: split_lines_append_newline)

lemma split_lines_rendering_terminated:
  assumes "CHR 0x0A \<notin> set loc" and "CHR 0x0A \<notin> set body" and "CHR 0x0A \<notin> set arr"
    and "CHR 0x0A \<notin> set msg"
  shows "split_lines (''\<newline>'' @ loc @ ''\<newline>'' @ (body @ ''\<newline>'') @ arr @ ''\<newline>'' @ msg @ ''\<newline>'') =
           ['''', loc, body, arr, msg, '''']"
  using assms by (simp add: split_lines_append_newline)

lemma str_of_lines_unterminated:
  assumes a: "CHR 0x0A \<notin> set src" and b: "CHR 0x0A \<notin> set msg"
  shows "split_lines (str_of (LineTerminalOutput (''Line '' @ str_int k @ '':'') src
                            (replicate n (CHR '' '') @ ''^'') msg)) =
           ['''', ''Line '' @ str_int k @ '':'', src @ replicate n (CHR '' '') @ ''^'', msg, '''']"
proof -
  have "split_lines (''\<newline>'' @ (''Line '' @ str_int k @ '':'') @ ''\<newline>''
          @ (src @ replicate n (CHR '' '') @ ''^'') @ ''\<newline>'' @ msg @ ''\<newline>'') =
        ['''', ''Line '' @ str_int k @ '':'', src @ replicate n (CHR '' '') @ ''^'', msg, '''']"
  proof (rule split_lines_rendering)
    show "CHR 0x0A \<notin> set (''Line '' @ str_int k @ '':'')"
      by (rule line_location_no_newline)
    show "CHR 0x0A \<notin> set (src @ replicate n (CHR '' '') @ ''^'')"
      using a by auto
    show "CHR 0x0A \<notin> set msg"
      by (rule b)
  qed
  then show ?thesis by simp
qed

lemma str_of_lines_terminated:
  assumes a: "CHR 0x0A \<notin> set body" and b: "CHR 0x0A \<notin> set msg"
  shows "split_lines (str_of (LineTerminalOutput (''Line '' @ str_int k @ '':'')
                            (body @ ''\<newline>'') (replicate n (CHR '' '') @ ''^'') msg)) =
           ['''', ''Line '' @ str_int k @ '':'', body, replicate n (CHR '' '') @ ''^'', msg, '''']"
proof -
  have "split_lines (''\<newline>'' @ (''Line '' @ str_int k @ '':'') @ ''\<newline>''
          @ (body @ ''\<newline>'') @ (replicate n (CHR '' '') @ ''^'') @ ''\<newline>'' @ msg @ ''\<newline>'') =
        ['''', ''Line '' @ str_int k @ '':'', body, replicate n (CHR '' '') @ ''^'', msg, '''']"
  proof (rule split_lines_rendering_terminated)
    show "CHR 0x0A \<notin> set (''Line '' @ str_int k @ '':'')"
      by (rule line_location_no_newline)
    show "CHR 0x0A \<notin> set body"
      by (rule a)
    show "CHR 0x0A \<notin> set (replicate n (CHR '' '') @ ''^'')"
      by (rule arrow_no_newline)
    show "CHR 0x0A \<notin> set msg"
      by (rule b)
  qed
  then show ?thesis by simp
qed


section \<open>The claims\<close>

text \<open>
  C1. The claim: for every error code other than the missing-clock-or-switch code,
  \<open>get_error_message\<close> with an empty label raises the missing-label \<open>TypeError\<close>. The
  code quotes the label before it tests it, so the tested string is never empty: with the
  empty label and the code \<open>EXPECT_IDENTIFIER\<close> (which differs from
  \<open>MISSING_CLOCK_OR_SWITCH\<close> in the concrete session) the call returns the message built
  around \<open>""\<close>, and no call of \<open>get_error_message\<close> ever raises that fault.
\<close>

theorem get_error_message_empty_label_returns:
  "EXPECT_IDENTIFIER example_handler \<noteq> MISSING_CLOCK_OR_SWITCH example_handler
   \<and> get_error_message example_handler (EXPECT_IDENTIFIER example_handler) (PyStr []) =
       Inr (''Found '' @ [CHR 0x22, CHR 0x22] @ '', expected a non-keyword identifier'')
   \<and> get_error_message self (EXPECT_IDENTIFIER self) (PyStr []) =
       Inr (''Found '' @ [CHR 0x22, CHR 0x22] @ '', expected a non-keyword identifier'')
   \<and> get_error_message self error_code name \<noteq> Inl (MissingName c)"
proof -
  have a: "get_error_message h (EXPECT_IDENTIFIER h) (PyStr []) =
       Inr (''Found '' @ [CHR 0x22, CHR 0x22] @ '', expected a non-keyword identifier'')" for h
    by (simp add: get_error_message_def)
  have b: "get_error_message self error_code name \<noteq> Inl (MissingName c)"
  proof (cases name)
    case (PyStr s)
    then show ?thesis using get_error_message_Inl [of self error_code s "MissingName c"] by auto
  qed (simp_all add: get_error_message_def)
  have c: "EXPECT_IDENTIFIER example_handler \<noteq> MISSING_CLOCK_OR_SWITCH example_handler"
    by (simp add: example_handler_def)
  from a [of example_handler] a [of self] b c show ?thesis by blast
qed

text \<open>
  C2. The claim: every symbol whose classification carries a value (Keyword, Name or
  Number) gets a display label and never raises the invalid-classification fault. The
  code tests \<open>if symbol.id:\<close>, the truthiness of the value, so a keyword or name whose
  name index is 0 is sent down the punctuation chain and raises
  \<open>ValueError("Invalid symbol type")\<close>, whatever the error code, the position and the
  handler are; nothing is appended.
\<close>

theorem handle_error_name_index_zero_raises:
  "handle_error self error_code
      \<lparr>sym_type = KEYWORD, sym_id = PyInt 0, line = ln, character_in_line = col\<rparr> =
     (Inl InvalidSymbolType, self, [''handling error''])
   \<and> handle_error self error_code
      \<lparr>sym_type = NAME, sym_id = PyInt 0, line = ln, character_in_line = col\<rparr> =
     (Inl InvalidSymbolType, self, [''handling error''])"
  by (simp add: handle_error_def symbol_name_def)




text \<open>
  C4. \<open>get_error_message\<close> is total over the declared identifier set: for each of the 26
  declared codes and any label (so in particular a non-empty one where the template uses
  it) it returns a non-empty string, the same at every call since it is a function of
  the handler's codes, the code and the label; for every other identifier it raises the
  unknown-code \<open>ValueError\<close>, and then neither \<open>file_error\<close> nor \<open>handle_error\<close> appends
  anything.
\<close>

theorem get_error_message_total:
  "(error_code \<in> set (declared_codes self) \<longrightarrow>
      (\<exists>m. get_error_message self error_code (PyStr label) = Inr m \<and> m \<noteq> []))
   \<and> (error_code \<notin> set (declared_codes self) \<longrightarrow>
        get_error_message self error_code (PyStr label) = Inl (InvalidErrorCode error_code)
      \<and> file_error self error_code = (Inl (InvalidErrorCode error_code), self, [])
      \<and> (\<exists>e. handle_error self error_code symbol = (Inl e, self, [''handling error''])))"
proof (intro conjI impI)
  assume d: "error_code \<in> set (declared_codes self)"
  show "\<exists>m. get_error_message self error_code (PyStr label) = Inr m \<and> m \<noteq> []"
  proof (cases "get_error_message self error_code (PyStr label)")
    case (Inl e)
    with get_error_message_Inl d show ?thesis by blast
  next
    case (Inr m)
    with get_error_message_Inr show ?thesis by blast
  qed
next
  assume u: "error_code \<notin> set (declared_codes self)"
  have unknown: "get_error_message self error_code (PyStr l) = Inl (InvalidErrorCode error_code)"
    for l
  proof (cases "get_error_message self error_code (PyStr l)")
    case (Inl e)
    with get_error_message_Inl show ?thesis by blast
  next
    case (Inr m)
    with get_error_message_Inr u show ?thesis by blast
  qed
  show "get_error_message self error_code (PyStr label) = Inl (InvalidErrorCode error_code)"
    by (rule unknown)
  show "file_error self error_code = (Inl (InvalidErrorCode error_code), self, [])"
    by (simp add: file_error_def unknown)
  show "\<exists>e. handle_error self error_code symbol = (Inl e, self, [''handling error''])"
  proof (cases "symbol_name self symbol")
    case (Inl e)
    then show ?thesis by (simp add: handle_error_def)
  next
    case (Inr name)
    show ?thesis
    proof (cases name)
      case (PyStr s)
      with Inr unknown [of s] show ?thesis by (simp add: handle_error_def)
    next
      case PyNone
      with Inr show ?thesis by (simp add: handle_error_def get_error_message_def)
    next
      case (PyInt i)
      with Inr show ?thesis by (simp add: handle_error_def get_error_message_def)
    qed
  qed
qed

theorem get_error_message_total_witness:
  "12 \<in> set (declared_codes example_handler)
   \<and> (\<exists>m. get_error_message example_handler 12 (PyStr ''A'') = Inr m \<and> m \<noteq> [])
   \<and> 99 \<notin> set (declared_codes example_handler)
   \<and> get_error_message example_handler 99 (PyStr ''A'') = Inl (InvalidErrorCode 99)
   \<and> file_error example_handler 99 = (Inl (InvalidErrorCode 99), example_handler, [])"
proof -
  have a: "12 \<in> set (declared_codes example_handler)"
    by (simp add: declared_codes_def example_handler_def)
  have b: "99 \<notin> set (declared_codes example_handler)"
    by (simp add: declared_codes_def example_handler_def)
  from a b get_error_message_total [of 12 example_handler "''A''"]
    get_error_message_total [of 99 example_handler "''A''"]
  show ?thesis by blast
qed

text \<open>
  C5, as stated: the positional diagnostic renders with the cached source line on its own
  line and the caret line (exactly C spaces, then \<open>^\<close>) on its own line; for line 4,
  column 7 over \<open>A -> B;\<close> the caret line is exactly 7 spaces followed by \<open>^\<close>. It fails
  at that very input: \<open>__str__\<close> puts no line break between the source line and the
  caret, so the rendering differs from the one the claim describes, and its third line is
  the source text followed by the caret.
\<close>

theorem handle_error_caret_line_counterexample:
  "handle_error example_handler 5
      \<lparr>sym_type = SEMICOLON, sym_id = PyNone, line = 4, character_in_line = 7\<rparr> =
     (Inr (),
      example_handler\<lparr>error_output_list :=
        [LineTerminalOutput ''Line 5:'' ''A -> B;'' ''       ^''
           (''Found '' @ [CHR 0x22] @ '';'' @ [CHR 0x22] @ '', expected a non-keyword identifier'')]\<rparr>,
      [''handling error''])
   \<and> str_of (LineTerminalOutput ''Line 5:'' ''A -> B;'' ''       ^''
           (''Found '' @ [CHR 0x22] @ '';'' @ [CHR 0x22] @ '', expected a non-keyword identifier''))
       \<noteq> spec_line_rendering 4 ''A -> B;'' 7
           (''Found '' @ [CHR 0x22] @ '';'' @ [CHR 0x22] @ '', expected a non-keyword identifier'')
   \<and> split_lines (str_of (LineTerminalOutput ''Line 5:'' ''A -> B;'' ''       ^''
           (''Found '' @ [CHR 0x22] @ '';'' @ [CHR 0x22] @ '', expected a non-keyword identifier''))) =
       ['''', ''Line 5:'', ''A -> B;       ^'',
        ''Found '' @ [CHR 0x22] @ '';'' @ [CHR 0x22] @ '', expected a non-keyword identifier'', '''']
   \<and> split_lines (spec_line_rendering 4 ''A -> B;'' 7
           (''Found '' @ [CHR 0x22] @ '';'' @ [CHR 0x22] @ '', expected a non-keyword identifier'')) =
       ['''', ''Line 5:'', ''A -> B;'', ''       ^'',
        ''Found '' @ [CHR 0x22] @ '';'' @ [CHR 0x22] @ '', expected a non-keyword identifier'', '''']"
  by (simp add: handle_error_def symbol_name_def get_error_message_def
      get_line_terminal_output_def py_index_def example_handler_def
      spec_line_rendering_def str_int_5 replicate_7_spaces)

text \<open>
  C5, amended: for every symbol whose label resolves, at a line L inside the cache and a
  column C, and every code with a message, \<open>handle_error\<close> appends a diagnostic that renders
  as a line break, \<open>Line {L+1}:\<close>, a line break, the cached line at index L immediately
  followed (no line break is added) by C spaces (none when C is negative) and \<open>^\<close>, a
  line break, the message and a line break. The rendering so contains \<open>Line {L+1}:\<close> and
  the cached line verbatim. When neither the cached line nor the message contains a line
  break, the rendering has exactly five lines: an empty one, \<open>Line {L+1}:\<close>, the cached
  line with the spaces and \<open>^\<close> behind it on the same line, the message, an empty one.
  When the cached line is a text without line break followed by one line break, the
  rendering has six lines: the text and the caret line (the spaces, then \<open>^\<close>) each stand
  on a line of their own.
\<close>

theorem handle_error_rendering:
  assumes "symbol_name self symbol = Inr name"
    and "get_error_message self error_code name = Inr msg"
    and "0 \<le> line symbol"
    and "line symbol < int (length (file_lines (scanner self)))"
  shows "\<exists>d. handle_error self error_code symbol =
               (Inr (), self\<lparr>error_output_list := error_output_list self @ [d]\<rparr>,
                [''handling error''])
           \<and> str_of d =
               ''\<newline>'' @ (''Line '' @ str_int (line symbol + 1) @ '':'') @ ''\<newline>''
               @ file_lines (scanner self) ! nat (line symbol)
               @ (replicate (nat (character_in_line symbol)) (CHR '' '') @ ''^'')
               @ ''\<newline>'' @ msg @ ''\<newline>''
           \<and> sublist (''Line '' @ str_int (line symbol + 1) @ '':'') (str_of d)
           \<and> sublist (file_lines (scanner self) ! nat (line symbol)) (str_of d)
           \<and> (CHR 0x0A \<notin> set (file_lines (scanner self) ! nat (line symbol))
                \<and> CHR 0x0A \<notin> set msg \<longrightarrow>
               split_lines (str_of d) =
                 ['''', ''Line '' @ str_int (line symbol + 1) @ '':'',
                  file_lines (scanner self) ! nat (line symbol)
                    @ replicate (nat (character_in_line symbol)) (CHR '' '') @ ''^'',
                  msg, ''''])
           \<and> (\<forall>body. file_lines (scanner self) ! nat (line symbol) = body @ ''\<newline>''
                \<and> CHR 0x0A \<notin> set body \<and> CHR 0x0A \<notin> set msg \<longrightarrow>
               split_lines (str_of d) =
                 ['''', ''Line '' @ str_int (line symbol + 1) @ '':'', body,
                  replicate (nat (character_in_line symbol)) (CHR '' '') @ ''^'',
                  msg, ''''])"
proof -
  let ?loc = "''Line '' @ str_int (line symbol + 1) @ '':''"
  let ?src = "file_lines (scanner self) ! nat (line symbol)"
  let ?arr = "replicate (nat (character_in_line symbol)) (CHR '' '') @ ''^''"
  let ?d = "LineTerminalOutput ?loc ?src ?arr msg"
  have run: "handle_error self error_code symbol =
               (Inr (), self\<lparr>error_output_list := error_output_list self @ [?d]\<rparr>,
                [''handling error''])"
    using assms by (rule handle_error_success)
  have str: "str_of ?d = ''\<newline>'' @ ?loc @ ''\<newline>'' @ ?src @ ?arr @ ''\<newline>'' @ msg @ ''\<newline>''"
    by simp
  have "str_of ?d = ''\<newline>'' @ ?loc @ (''\<newline>'' @ ?src @ ?arr @ ''\<newline>'' @ msg @ ''\<newline>'')"
    by simp
  then have loc: "sublist ?loc (str_of ?d)"
    by (metis sublist_appendI)
  have "str_of ?d = (''\<newline>'' @ ?loc @ ''\<newline>'') @ ?src @ (?arr @ ''\<newline>'' @ msg @ ''\<newline>'')"
    by simp
  then have src: "sublist ?src (str_of ?d)"
    by (metis sublist_appendI)
  have five: "split_lines (str_of ?d) = ['''', ?loc, ?src @ ?arr, msg, '''']"
    if "CHR 0x0A \<notin> set ?src \<and> CHR 0x0A \<notin> set msg"
    using that str_of_lines_unterminated [of ?src msg "line symbol + 1"] by blast
  have six: "split_lines (str_of ?d) = ['''', ?loc, body, ?arr, msg, '''']"
    if "?src = body @ ''\<newline>'' \<and> CHR 0x0A \<notin> set body \<and> CHR 0x0A \<notin> set msg" for body
  proof -
    from that have "split_lines (str_of (LineTerminalOutput ?loc (body @ ''\<newline>'') ?arr msg)) =
        ['''', ?loc, body, ?arr, msg, '''']"
      using str_of_lines_terminated [of body msg "line symbol + 1"] by blast
    with that show ?thesis by (simp only:)
  qed
  from five have five': "CHR 0x0A \<notin> set ?src \<and> CHR 0x0A \<notin> set msg \<longrightarrow>
      split_lines (str_of ?d) = ['''', ?loc, ?src @ ?arr, msg, '''']"
    by blast
  from six have six': "\<forall>body. ?src = body @ ''\<newline>'' \<and> CHR 0x0A \<notin> set body
      \<and> CHR 0x0A \<notin> set msg \<longrightarrow>
      split_lines (str_of ?d) = ['''', ?loc, body, ?arr, msg, '''']"
    by blast
  show ?thesis
    by (intro exI [of _ ?d] conjI run str loc src five' six')
qed

theorem handle_error_rendering_witness:
  "symbol_name example_handler
      \<lparr>sym_type = ARROW, sym_id = PyNone, line = 4, character_in_line = 7\<rparr> = Inr (PyStr ''>'')
   \<and> get_error_message example_handler 16 (PyStr ''>'') =
       Inr (''Found '' @ [CHR 0x22] @ ''>'' @ [CHR 0x22] @ '', expected ';'' @ [CHR 0x27])
   \<and> (0::int) \<le> 4 \<and> (4::int) < int (length (file_lines (scanner example_handler)))
   \<and> (\<exists>d. handle_error example_handler 16
             \<lparr>sym_type = ARROW, sym_id = PyNone, line = 4, character_in_line = 7\<rparr> =
             (Inr (), example_handler\<lparr>error_output_list := [d]\<rparr>, [''handling error''])
          \<and> str_of d =
              ''\<newline>Line 5:\<newline>A -> B;       ^\<newline>Found '' @ [CHR 0x22] @ ''>'' @ [CHR 0x22]
                @ '', expected ';'' @ [CHR 0x27] @ ''\<newline>''
          \<and> sublist ''Line 5:'' (str_of d) \<and> sublist ''A -> B;'' (str_of d)
          \<and> split_lines (str_of d) =
              ['''', ''Line 5:'', ''A -> B;       ^'',
               ''Found '' @ [CHR 0x22] @ ''>'' @ [CHR 0x22] @ '', expected ';'' @ [CHR 0x27], ''''])
   \<and> (\<exists>d. handle_error
             (example_handler\<lparr>scanner := \<lparr>file_lines = [''A -> B;'' @ ''\<newline>'']\<rparr>\<rparr>) 16
             \<lparr>sym_type = ARROW, sym_id = PyNone, line = 0, character_in_line = 2\<rparr> =
             (Inr (),
              example_handler\<lparr>scanner := \<lparr>file_lines = [''A -> B;'' @ ''\<newline>'']\<rparr>,
                              error_output_list := [d]\<rparr>,
              [''handling error''])
          \<and> split_lines (str_of d) =
              ['''', ''Line 1:'', ''A -> B;'', ''  ^'',
               ''Found '' @ [CHR 0x22] @ ''>'' @ [CHR 0x22] @ '', expected ';'' @ [CHR 0x27], ''''])"
proof -
  let ?s = "\<lparr>sym_type = ARROW, sym_id = PyNone, line = 4, character_in_line = 7\<rparr>"
  let ?t = "\<lparr>sym_type = ARROW, sym_id = PyNone, line = 0, character_in_line = 2\<rparr>"
  let ?g = "example_handler\<lparr>scanner := \<lparr>file_lines = [''A -> B;'' @ ''\<newline>'']\<rparr>\<rparr>"
  let ?m = "''Found '' @ [CHR 0x22] @ ''>'' @ [CHR 0x22] @ '', expected ';'' @ [CHR 0x27]"
  have m: "CHR 0x0A \<notin> set ?m" by simp
  have a: "symbol_name example_handler ?s = Inr (PyStr ''>'')"
    by (simp add: symbol_name_def)
  have b: "get_error_message example_handler 16 (PyStr ''>'') = Inr ?m"
    by (simp add: get_error_message_def example_handler_def)
  have c: "0 \<le> line ?s" by simp
  have d: "line ?s < int (length (file_lines (scanner example_handler)))"
    by (simp add: example_handler_def)
  have e: "file_lines (scanner example_handler) ! nat (line ?s) = ''A -> B;''"
    by (simp add: example_handler_def)
  have f: "error_output_list example_handler = []"
    by (simp add: example_handler_def)
  from handle_error_rendering [OF a b c d] obtain x where
    x1: "handle_error example_handler 16 ?s =
           (Inr (), example_handler\<lparr>error_output_list := error_output_list example_handler @ [x]\<rparr>,
            [''handling error''])" and
    x2: "str_of x = ''\<newline>'' @ (''Line '' @ str_int (line ?s + 1) @ '':'') @ ''\<newline>''
               @ file_lines (scanner example_handler) ! nat (line ?s)
               @ (replicate (nat (character_in_line ?s)) (CHR '' '') @ ''^'')
               @ ''\<newline>'' @ ?m @ ''\<newline>''" and
    x3: "sublist (''Line '' @ str_int (line ?s + 1) @ '':'') (str_of x)" and
    x4: "sublist (file_lines (scanner example_handler) ! nat (line ?s)) (str_of x)" and
    x5: "CHR 0x0A \<notin> set (file_lines (scanner example_handler) ! nat (line ?s))
           \<and> CHR 0x0A \<notin> set ?m \<longrightarrow>
         split_lines (str_of x) =
           ['''', ''Line '' @ str_int (line ?s + 1) @ '':'',
            file_lines (scanner example_handler) ! nat (line ?s)
              @ replicate (nat (character_in_line ?s)) (CHR '' '') @ ''^'', ?m, '''']"
    by (elim exE conjE)
  have first: "handle_error example_handler 16 ?s =
             (Inr (), example_handler\<lparr>error_output_list := [x]\<rparr>, [''handling error''])
          \<and> str_of x =
              ''\<newline>Line 5:\<newline>A -> B;       ^\<newline>Found '' @ [CHR 0x22] @ ''>'' @ [CHR 0x22]
                @ '', expected ';'' @ [CHR 0x27] @ ''\<newline>''
          \<and> sublist ''Line 5:'' (str_of x) \<and> sublist ''A -> B;'' (str_of x)
          \<and> split_lines (str_of x) = [[], ''Line 5:'', ''A -> B;       ^'', ?m, []]"
    using x1 x3 x4 x5 m unfolding x2 e f
    by (simp add: str_int_5 replicate_7_spaces)
  have a': "symbol_name ?g ?t = Inr (PyStr ''>'')"
    by (simp add: symbol_name_def)
  have b': "get_error_message ?g 16 (PyStr ''>'') = Inr ?m"
    by (simp add: get_error_message_def example_handler_def)
  have c': "0 \<le> line ?t" by simp
  have d': "line ?t < int (length (file_lines (scanner ?g)))"
    by simp
  have e': "file_lines (scanner ?g) ! nat (line ?t) = ''A -> B;'' @ ''\<newline>''"
    by simp
  have n: "CHR 0x0A \<notin> set ''A -> B;''" by simp
  from handle_error_rendering [OF a' b' c' d'] obtain y where
    y1: "handle_error ?g 16 ?t =
           (Inr (), ?g\<lparr>error_output_list := error_output_list ?g @ [y]\<rparr>, [''handling error''])" and
    y6: "\<forall>body. file_lines (scanner ?g) ! nat (line ?t) = body @ ''\<newline>''
           \<and> CHR 0x0A \<notin> set body \<and> CHR 0x0A \<notin> set ?m \<longrightarrow>
         split_lines (str_of y) =
           ['''', ''Line '' @ str_int (line ?t + 1) @ '':'', body,
            replicate (nat (character_in_line ?t)) (CHR '' '') @ ''^'', ?m, '''']"
    by (elim exE conjE)
  from y6 e' n m have
    "split_lines (str_of y) =
       ['''', ''Line '' @ str_int (line ?t + 1) @ '':'', ''A -> B;'',
        replicate (nat (character_in_line ?t)) (CHR '' '') @ ''^'', ?m, '''']"
    by blast
  then have y7: "split_lines (str_of y) = [[], ''Line 1:'', ''A -> B;'', ''  ^'', ?m, []]"
    by (simp add: str_int_1 replicate_2_spaces)
  from y1 have y8: "handle_error ?g 16 ?t =
      (Inr (),
       example_handler\<lparr>scanner := \<lparr>file_lines = [''A -> B;'' @ ''\<newline>'']\<rparr>,
                       error_output_list := [y]\<rparr>,
       [''handling error''])"
    by (simp add: f)
  from first have ex1: "\<exists>d. handle_error example_handler 16 ?s =
             (Inr (), example_handler\<lparr>error_output_list := [d]\<rparr>, [''handling error''])
          \<and> str_of d =
              ''\<newline>Line 5:\<newline>A -> B;       ^\<newline>Found '' @ [CHR 0x22] @ ''>'' @ [CHR 0x22]
                @ '', expected ';'' @ [CHR 0x27] @ ''\<newline>''
          \<and> sublist ''Line 5:'' (str_of d) \<and> sublist ''A -> B;'' (str_of d)
          \<and> split_lines (str_of d) = [[], ''Line 5:'', ''A -> B;       ^'', ?m, []]"
    by blast
  from y8 y7 have "handle_error ?g 16 ?t =
      (Inr (),
       example_handler\<lparr>scanner := \<lparr>file_lines = [''A -> B;'' @ ''\<newline>'']\<rparr>,
                       error_output_list := [y]\<rparr>,
       [''handling error''])
     \<and> split_lines (str_of y) = [[], ''Line 1:'', ''A -> B;'', ''  ^'', ?m, []]"
    by (rule conjI)
  then have ex2: "\<exists>d. handle_error ?g 16 ?t =
      (Inr (),
       example_handler\<lparr>scanner := \<lparr>file_lines = [''A -> B;'' @ ''\<newline>'']\<rparr>,
                       error_output_list := [d]\<rparr>,
       [''handling error''])
     \<and> split_lines (str_of d) = [[], ''Line 1:'', ''A -> B;'', ''  ^'', ?m, []]"
    by blast
  have d5: "(0::int) \<le> 4"
    by simp
  have d6: "(4::int) < int (length (file_lines (scanner example_handler)))"
    using d by simp
  show ?thesis
    by (rule conjI [OF a conjI [OF b conjI [OF d5 conjI [OF d6 conjI [OF ex1 ex2]]]]])
qed

text \<open>
  C6, as stated: a call of \<open>handle_error\<close> that does not raise has the list mutation as
  its only observable effect and produces no other output. It fails: the first statement
  of \<open>handle_error\<close> is \<open>print("handling error")\<close>, so every call writes a line on
  standard output.
\<close>

theorem handle_error_prints_counterexample:
  "handle_error example_handler 19
      \<lparr>sym_type = COMMA, sym_id = PyNone, line = 0, character_in_line = 0\<rparr> =
     (Inr (),
      example_handler\<lparr>error_output_list :=
        [LineTerminalOutput ''Line 1:'' ''DEVICE {'' ''^''
           (''Found '' @ [CHR 0x22] @ '','' @ [CHR 0x22] @ '', expected '.'' @ [CHR 0x27])]\<rparr>,
      [''handling error''])
   \<and> snd (snd (handle_error example_handler 19
        \<lparr>sym_type = COMMA, sym_id = PyNone, line = 0, character_in_line = 0\<rparr>)) \<noteq> []"
  by (simp add: handle_error_def symbol_name_def get_error_message_def
      get_line_terminal_output_def py_index_def example_handler_def str_int_1)

text \<open>
  C6, amended: a call of \<open>handle_error\<close> that does not raise returns nothing, appends
  one diagnostic to the diagnostics list and leaves every other part of the handler (the
  names, devices, network, monitors and scanner references and all the codes) as it was;
  besides, it writes the one line \<open>handling error\<close> on standard output.
\<close>

theorem handle_error_frame:
  assumes "handle_error self error_code symbol = (Inr u, self', printed)"
  shows "(\<exists>d. self' = self\<lparr>error_output_list := error_output_list self @ [d]\<rparr>)
       \<and> names self' = names self \<and> devices self' = devices self
       \<and> network self' = network self \<and> monitors self' = monitors self
       \<and> scanner self' = scanner self \<and> declared_codes self' = declared_codes self
       \<and> printed = [''handling error'']"
proof -
  from handle_error_Inr [OF assms] obtain d where
    s: "self' = self\<lparr>error_output_list := error_output_list self @ [d]\<rparr>" and
    p: "printed = [''handling error'']"
    by blast
  from s have "names self' = names self" "devices self' = devices self"
    "network self' = network self" "monitors self' = monitors self"
    "scanner self' = scanner self" "declared_codes self' = declared_codes self"
    by (simp_all add: declared_codes_def)
  with s p show ?thesis by blast
qed

theorem handle_error_frame_witness:
  "handle_error example_handler 15
      \<lparr>sym_type = NAME, sym_id = PyInt 1, line = 1, character_in_line = 2\<rparr> =
     (Inr (),
      example_handler\<lparr>error_output_list :=
        [LineTerminalOutput ''Line 2:'' ''  A: AND 2;'' ''  ^''
           (''Found '' @ [CHR 0x22] @ ''A'' @ [CHR 0x22] @ '', expected ','' @ [CHR 0x27])]\<rparr>,
      [''handling error''])
   \<and> scanner (example_handler\<lparr>error_output_list :=
        [LineTerminalOutput ''Line 2:'' ''  A: AND 2;'' ''  ^''
           (''Found '' @ [CHR 0x22] @ ''A'' @ [CHR 0x22] @ '', expected ','' @ [CHR 0x27])]\<rparr>)
       = scanner example_handler"
proof -
  let ?s = "\<lparr>sym_type = NAME, sym_id = PyInt 1, line = 1, character_in_line = 2\<rparr>"
  let ?h = "example_handler\<lparr>error_output_list :=
        [LineTerminalOutput ''Line 2:'' ''  A: AND 2;'' ''  ^''
           (''Found '' @ [CHR 0x22] @ ''A'' @ [CHR 0x22] @ '', expected ','' @ [CHR 0x27])]\<rparr>"
  have run: "handle_error example_handler 15 ?s = (Inr (), ?h, [''handling error''])"
    by (simp add: handle_error_def symbol_name_def get_error_message_def
        get_line_terminal_output_def py_index_def example_handler_def example_names_def
        str_int_2 replicate_2_spaces)
  from handle_error_frame [OF run] run show ?thesis by blast
qed


text \<open>
  C7. The diagnostics list is append-only and order-preserving: a call of
  \<open>handle_error\<close> that does not raise appends exactly one positional diagnostic at the
  end, a call of \<open>file_error\<close> that does not raise appends exactly one file diagnostic at
  the end, a call that raises leaves the list as it was, and two calls of \<open>handle_error\<close>
  followed by one of \<open>file_error\<close> extend the list by exactly these three diagnostics in
  that order, whatever the codes are (equal or not).
\<close>

theorem error_output_list_append_only:
  "(handle_error self c s = (Inr u, self', p) \<longrightarrow>
      (\<exists>d. is_LineTerminalOutput d
           \<and> error_output_list self' = error_output_list self @ [d]))
   \<and> (file_error self c = (Inr u, self', p) \<longrightarrow>
      (\<exists>m. error_output_list self' = error_output_list self @ [FileTerminalOutput m]))
   \<and> (handle_error self c s = (Inl e, self', p) \<or> file_error self c = (Inl e, self', p) \<longrightarrow>
      error_output_list self' = error_output_list self)
   \<and> (handle_error h0 c1 s1 = (Inr u1, h1, p1)
      \<and> handle_error h1 c2 s2 = (Inr u2, h2, p2)
      \<and> file_error h2 c3 = (Inr u3, h3, p3) \<longrightarrow>
      (\<exists>d1 d2 m3.
           is_LineTerminalOutput d1 \<and> is_LineTerminalOutput d2
         \<and> error_output_list h1 = error_output_list h0 @ [d1]
         \<and> error_output_list h2 = error_output_list h0 @ [d1, d2]
         \<and> error_output_list h3 = error_output_list h0 @ [d1, d2, FileTerminalOutput m3]
         \<and> length (error_output_list h3) = length (error_output_list h0) + 3))"
proof -
  have pos: "\<exists>d. is_LineTerminalOutput d \<and> error_output_list b = error_output_list a @ [d]"
    if "handle_error a k t = (Inr v, b, q)" for a b k t v q
  proof -
    from handle_error_Inr [OF that] obtain loc src arr msg where
      "b = a\<lparr>error_output_list := error_output_list a @ [LineTerminalOutput loc src arr msg]\<rparr>"
      by blast
    then have "is_LineTerminalOutput (LineTerminalOutput loc src arr msg)
        \<and> error_output_list b = error_output_list a @ [LineTerminalOutput loc src arr msg]"
      by simp
    then show ?thesis by blast
  qed
  have fil: "\<exists>m. error_output_list b = error_output_list a @ [FileTerminalOutput m]"
    if "file_error a k = (Inr v, b, q)" for a b k v q
  proof -
    from file_error_Inr [OF that] obtain m where
      "b = a\<lparr>error_output_list := error_output_list a @ [FileTerminalOutput m]\<rparr>"
      by blast
    then have "error_output_list b = error_output_list a @ [FileTerminalOutput m]"
      by simp
    then show ?thesis by blast
  qed
  have raised: "error_output_list self' = error_output_list self"
    if "handle_error self c s = (Inl e, self', p) \<or> file_error self c = (Inl e, self', p)"
    using that handle_error_Inl file_error_Inl by blast
  have three: "\<exists>d1 d2 m3.
           is_LineTerminalOutput d1 \<and> is_LineTerminalOutput d2
         \<and> error_output_list h1 = error_output_list h0 @ [d1]
         \<and> error_output_list h2 = error_output_list h0 @ [d1, d2]
         \<and> error_output_list h3 = error_output_list h0 @ [d1, d2, FileTerminalOutput m3]
         \<and> length (error_output_list h3) = length (error_output_list h0) + 3"
    if r: "handle_error h0 c1 s1 = (Inr u1, h1, p1)
      \<and> handle_error h1 c2 s2 = (Inr u2, h2, p2)
      \<and> file_error h2 c3 = (Inr u3, h3, p3)"
  proof -
    from r pos obtain d1 where
      d1: "is_LineTerminalOutput d1" "error_output_list h1 = error_output_list h0 @ [d1]"
      by blast
    from r pos obtain d2 where
      d2: "is_LineTerminalOutput d2" "error_output_list h2 = error_output_list h1 @ [d2]"
      by blast
    from r fil obtain m3 where
      m3: "error_output_list h3 = error_output_list h2 @ [FileTerminalOutput m3]"
      by blast
    from d1 d2 m3 have
      "is_LineTerminalOutput d1 \<and> is_LineTerminalOutput d2
         \<and> error_output_list h1 = error_output_list h0 @ [d1]
         \<and> error_output_list h2 = error_output_list h0 @ [d1, d2]
         \<and> error_output_list h3 = error_output_list h0 @ [d1, d2, FileTerminalOutput m3]
         \<and> length (error_output_list h3) = length (error_output_list h0) + 3"
      by simp
    then show ?thesis by blast
  qed
  from pos fil raised three show ?thesis by blast
qed

theorem error_output_list_append_only_witness:
  "handle_error example_handler 5
      \<lparr>sym_type = COMMA, sym_id = PyNone, line = 0, character_in_line = 0\<rparr> =
     (Inr (),
      example_handler\<lparr>error_output_list :=
        [LineTerminalOutput ''Line 1:'' ''DEVICE {'' ''^''
           (''Found '' @ [CHR 0x22] @ '','' @ [CHR 0x22] @ '', expected a non-keyword identifier'')]\<rparr>,
      [''handling error''])
   \<and> handle_error
        (example_handler\<lparr>error_output_list :=
          [LineTerminalOutput ''Line 1:'' ''DEVICE {'' ''^''
             (''Found '' @ [CHR 0x22] @ '','' @ [CHR 0x22] @ '', expected a non-keyword identifier'')]\<rparr>)
        5 \<lparr>sym_type = EOF, sym_id = PyNone, line = 1, character_in_line = 2\<rparr> =
     (Inr (),
      example_handler\<lparr>error_output_list :=
        [LineTerminalOutput ''Line 1:'' ''DEVICE {'' ''^''
           (''Found '' @ [CHR 0x22] @ '','' @ [CHR 0x22] @ '', expected a non-keyword identifier''),
         LineTerminalOutput ''Line 2:'' ''  A: AND 2;'' ''  ^''
           (''Found '' @ [CHR 0x22, CHR 0x22] @ '', expected a non-keyword identifier'')]\<rparr>,
      [''handling error''])
   \<and> file_error
        (example_handler\<lparr>error_output_list :=
          [LineTerminalOutput ''Line 1:'' ''DEVICE {'' ''^''
             (''Found '' @ [CHR 0x22] @ '','' @ [CHR 0x22] @ '', expected a non-keyword identifier''),
           LineTerminalOutput ''Line 2:'' ''  A: AND 2;'' ''  ^''
             (''Found '' @ [CHR 0x22, CHR 0x22] @ '', expected a non-keyword identifier'')]\<rparr>)
        25 =
     (Inr (),
      example_handler\<lparr>error_output_list :=
        [LineTerminalOutput ''Line 1:'' ''DEVICE {'' ''^''
           (''Found '' @ [CHR 0x22] @ '','' @ [CHR 0x22] @ '', expected a non-keyword identifier''),
         LineTerminalOutput ''Line 2:'' ''  A: AND 2;'' ''  ^''
           (''Found '' @ [CHR 0x22, CHR 0x22] @ '', expected a non-keyword identifier''),
         FileTerminalOutput ''At least one monitor should be defined'']\<rparr>,
      [])
   \<and> length (error_output_list
        (example_handler\<lparr>error_output_list :=
          [LineTerminalOutput ''Line 1:'' ''DEVICE {'' ''^''
             (''Found '' @ [CHR 0x22] @ '','' @ [CHR 0x22] @ '', expected a non-keyword identifier''),
           LineTerminalOutput ''Line 2:'' ''  A: AND 2;'' ''  ^''
             (''Found '' @ [CHR 0x22, CHR 0x22] @ '', expected a non-keyword identifier''),
           FileTerminalOutput ''At least one monitor should be defined'']\<rparr>)) =
       length (error_output_list example_handler) + 3"
proof -
  let ?d1 = "LineTerminalOutput ''Line 1:'' ''DEVICE {'' ''^''
           (''Found '' @ [CHR 0x22] @ '','' @ [CHR 0x22] @ '', expected a non-keyword identifier'')"
  let ?d2 = "LineTerminalOutput ''Line 2:'' ''  A: AND 2;'' ''  ^''
           (''Found '' @ [CHR 0x22, CHR 0x22] @ '', expected a non-keyword identifier'')"
  let ?d3 = "FileTerminalOutput ''At least one monitor should be defined''"
  let ?h1 = "example_handler\<lparr>error_output_list := [?d1]\<rparr>"
  let ?h2 = "example_handler\<lparr>error_output_list := [?d1, ?d2]\<rparr>"
  let ?h3 = "example_handler\<lparr>error_output_list := [?d1, ?d2, ?d3]\<rparr>"
  have r1: "handle_error example_handler 5
      \<lparr>sym_type = COMMA, sym_id = PyNone, line = 0, character_in_line = 0\<rparr> =
     (Inr (), ?h1, [''handling error''])"
    by (simp add: handle_error_def symbol_name_def get_error_message_def
        get_line_terminal_output_def py_index_def example_handler_def str_int_1)
  have r2: "handle_error ?h1 5
      \<lparr>sym_type = EOF, sym_id = PyNone, line = 1, character_in_line = 2\<rparr> =
     (Inr (), ?h2, [''handling error''])"
    by (simp add: handle_error_def symbol_name_def get_error_message_def
        get_line_terminal_output_def py_index_def example_handler_def str_int_2
        replicate_2_spaces)
  have r3: "file_error ?h2 25 = (Inr (), ?h3, [])"
    by (simp add: file_error_def get_error_message_def example_handler_def)
  from error_output_list_append_only
    [of _ _ _ _ _ _ _ example_handler 5
        "\<lparr>sym_type = COMMA, sym_id = PyNone, line = 0, character_in_line = 0\<rparr>"
        "()" ?h1 "[''handling error'']" 5
        "\<lparr>sym_type = EOF, sym_id = PyNone, line = 1, character_in_line = 2\<rparr>"
        "()" ?h2 "[''handling error'']" 25 "()" ?h3 "[]"]
    r1 r2 r3
  have "\<exists>d1 d2 m3.
           is_LineTerminalOutput d1 \<and> is_LineTerminalOutput d2
         \<and> error_output_list ?h1 = error_output_list example_handler @ [d1]
         \<and> error_output_list ?h2 = error_output_list example_handler @ [d1, d2]
         \<and> error_output_list ?h3 = error_output_list example_handler @ [d1, d2, FileTerminalOutput m3]
         \<and> length (error_output_list ?h3) = length (error_output_list example_handler) + 3"
    by blast
  with r1 r2 r3 show ?thesis by blast
qed

text \<open>
  C8. With the codes pairwise distinct, as the registry hands them out, \<open>file_error\<close>
  called with the missing-clock-or-switch code appends a file diagnostic that renders as
  a line break, \<open>File error: \<close> and the message, and a line break; the message contains
  the phrase \<open>At least one list between 'CLOCK' and 'SWITCH' is needed\<close> and is the same
  for every label, none being substituted.
\<close>

theorem file_error_missing_clock_or_switch:
  assumes "distinct (declared_codes self)"
  shows "file_error self (MISSING_CLOCK_OR_SWITCH self) =
           (Inr (),
            self\<lparr>error_output_list := error_output_list self @
              [FileTerminalOutput
                 ''At least one list between 'CLOCK' and 'SWITCH' is needed. neither is found'']\<rparr>,
            [])
       \<and> str_of (FileTerminalOutput
                 ''At least one list between 'CLOCK' and 'SWITCH' is needed. neither is found'') =
           ''\<newline>'' @ ''File error: ''
             @ ''At least one list between 'CLOCK' and 'SWITCH' is needed. neither is found''
             @ ''\<newline>''
       \<and> sublist ''At least one list between 'CLOCK' and 'SWITCH' is needed''
           (str_of (FileTerminalOutput
                 ''At least one list between 'CLOCK' and 'SWITCH' is needed. neither is found''))
       \<and> get_error_message self (MISSING_CLOCK_OR_SWITCH self) (PyStr label) =
           Inr ''At least one list between 'CLOCK' and 'SWITCH' is needed. neither is found''"
proof -
  let ?p = "''At least one list between 'CLOCK' and 'SWITCH' is needed''"
  let ?m = "''At least one list between 'CLOCK' and 'SWITCH' is needed. neither is found''"
  have run: "file_error self (MISSING_CLOCK_OR_SWITCH self) =
           (Inr (), self\<lparr>error_output_list := error_output_list self @ [FileTerminalOutput ?m]\<rparr>, [])"
    by (simp add: file_error_def message_MISSING_CLOCK_OR_SWITCH [OF assms])
  have str: "str_of (FileTerminalOutput ?m) = ''\<newline>'' @ ''File error: '' @ ?m @ ''\<newline>''"
    by simp
  have "str_of (FileTerminalOutput ?m) = ''\<newline>File error: '' @ ?p @ ''. neither is found\<newline>''"
    by simp
  then have sub: "sublist ?p (str_of (FileTerminalOutput ?m))"
    by (metis sublist_appendI)
  from run str sub message_MISSING_CLOCK_OR_SWITCH [OF assms, of label]
  show ?thesis by blast
qed

theorem file_error_missing_clock_or_switch_witness:
  "distinct (declared_codes example_handler)
   \<and> file_error example_handler 22 =
       (Inr (),
        example_handler\<lparr>error_output_list :=
          [FileTerminalOutput
             ''At least one list between 'CLOCK' and 'SWITCH' is needed. neither is found'']\<rparr>,
        [])"
proof -
  have c: "MISSING_CLOCK_OR_SWITCH example_handler = 22"
      "error_output_list example_handler = []"
    by (simp_all add: example_handler_def)
  from file_error_missing_clock_or_switch [OF example_codes_distinct, of "[]"]
  show ?thesis using example_codes_distinct by (simp add: c)
qed

text \<open>
  C9. With the codes pairwise distinct, \<open>file_error\<close> called with the no-monitor-defined
  code, which passes no label, raises nothing and appends the file diagnostic whose
  message is the no-monitor template.
\<close>

theorem file_error_monitor_not_defined:
  assumes "distinct (declared_codes self)"
  shows "file_error self (MONITOR_NOT_DEFINED self) =
           (Inr (),
            self\<lparr>error_output_list := error_output_list self @
              [FileTerminalOutput ''At least one monitor should be defined'']\<rparr>,
            [])"
  by (simp add: file_error_def message_MONITOR_NOT_DEFINED [OF assms])

theorem file_error_monitor_not_defined_witness:
  "distinct (declared_codes example_handler)
   \<and> file_error example_handler 25 =
       (Inr (),
        example_handler\<lparr>error_output_list :=
          [FileTerminalOutput ''At least one monitor should be defined'']\<rparr>,
        [])"
proof -
  have c: "MONITOR_NOT_DEFINED example_handler = 25"
      "error_output_list example_handler = []"
    by (simp_all add: example_handler_def)
  from file_error_monitor_not_defined [OF example_codes_distinct]
  show ?thesis using example_codes_distinct by (simp add: c)
qed

text \<open>
  C10. With the codes pairwise distinct, \<open>get_error_message\<close> gives the two ambiguity
  codes \<open>EXPECT_FULL_STOP_OR_SEMICOLON\<close> and \<open>EXPECT_FULL_STOP_OR_ARROW\<close> the identical
  outcome for every label, and for a string label that outcome is the same message, the
  one that names \<open>'.'\<close> and \<open>';'\<close>.
\<close>

theorem ambiguity_codes_same_message:
  assumes "distinct (declared_codes self)"
  shows "get_error_message self (EXPECT_FULL_STOP_OR_SEMICOLON self) name =
           get_error_message self (EXPECT_FULL_STOP_OR_ARROW self) name
       \<and> get_error_message self (EXPECT_FULL_STOP_OR_ARROW self) (PyStr label) =
           Inr (''Found '' @ [CHR 0x22] @ label @ [CHR 0x22] @ '', expected '.' (if pin has to be defined) or ';' (if pin does not have to be defined)'')"
proof -
  have "get_error_message self (EXPECT_FULL_STOP_OR_SEMICOLON self) name =
           get_error_message self (EXPECT_FULL_STOP_OR_ARROW self) name"
  proof (cases name)
    case (PyStr s)
    then show ?thesis
      by (simp add: message_EXPECT_FULL_STOP_OR_SEMICOLON [OF assms]
          message_EXPECT_FULL_STOP_OR_ARROW [OF assms])
  qed (simp_all add: get_error_message_def)
  with message_EXPECT_FULL_STOP_OR_ARROW [OF assms, of label] show ?thesis by blast
qed

theorem ambiguity_codes_same_message_witness:
  "distinct (declared_codes example_handler)
   \<and> get_error_message example_handler 18 (PyStr ''Q'') =
       get_error_message example_handler 21 (PyStr ''Q'')
   \<and> get_error_message example_handler 21 (PyStr ''Q'') =
       Inr (''Found '' @ [CHR 0x22] @ ''Q'' @ [CHR 0x22] @ '', expected '.' (if pin has to be defined) or ';' (if pin does not have to be defined)'')"
proof -
  have c: "EXPECT_FULL_STOP_OR_SEMICOLON example_handler = 18"
      "EXPECT_FULL_STOP_OR_ARROW example_handler = 21"
    by (simp_all add: example_handler_def)
  from ambiguity_codes_same_message [OF example_codes_distinct, of "PyStr ''Q''" "''Q''"]
  show ?thesis using example_codes_distinct by (simp add: c)
qed


end
